theory Spec2Isabelle
  imports Main "HOL-Library.Word"
begin

unbundle bit_operations_syntax

section \<open>Data model of \<^verbatim>\<open>src/userprog/syscall.c\<close>\<close>

text \<open>
  Pintos runs on 32-bit x86: a pointer and an \<^verbatim>\<open>int\<close> are 32-bit words, a byte is an
  8-bit word. Pointer comparison is unsigned (\<open><\<close> on words); a C \<^verbatim>\<open>int\<close> is read
  through \<open>sint\<close> where the source compares it with a signed constant.
\<close>

type_synonym addr = "32 word"
type_synonym byte = "8 word"
type_synonym int32 = "32 word"

text \<open>
  The virtual address space the kernel sees while it serves the trap: \<open>None\<close> is an
  address with no page mapped. Addresses at or above \<^verbatim>\<open>PHYS_BASE\<close> are kernel
  addresses; they can be mapped too.
\<close>

type_synonym memory = "addr \<Rightarrow> byte option"

text \<open>
  \<^verbatim>\<open>struct process_control_block\<close> is declared in \<^verbatim>\<open>userprog/process.h\<close>; the fields
  below are the ones \<^verbatim>\<open>sys_exit\<close> touches. The semaphore is its counter.
\<close>

record process_control_block =
  exited :: bool
  exitcode :: int32
  sema_wait :: nat

text \<open>
  Every effect of the source that leaves the function is recorded, in program order,
  as an event: the three \<^verbatim>\<open>printf\<close> calls (one constructor per format string, with
  its arguments), \<^verbatim>\<open>putbuf\<close> with the bytes handed to the console, the two stores
  into the PCB, \<^verbatim>\<open>sema_up\<close>, \<^verbatim>\<open>thread_exit\<close> and \<^verbatim>\<open>shutdown_power_off\<close>.
\<close>

datatype event =
    Printf_exit string int32
  | Printf_syscall_unimplemented int32
  | Printf_sys_write_unimplemented
  | Putbuf "byte list"
  | Store_exited bool
  | Store_exitcode int32
  | Sema_up
  | Thread_exit
  | Shutdown_power_off

text \<open>
  The state one trap works on: user memory, the two fields of
  \<^verbatim>\<open>struct intr_frame\<close> the handler uses (\<^verbatim>\<open>f->esp\<close>, \<^verbatim>\<open>f->eax\<close>), the two fields of
  \<^verbatim>\<open>thread_current ()\<close> it uses (\<^verbatim>\<open>name\<close>, \<^verbatim>\<open>pcb\<close>; a NULL \<^verbatim>\<open>pcb\<close> is \<open>None\<close>), and
  the events so far.
\<close>

record kstate =
  mem :: memory
  f_esp :: addr
  f_eax :: "32 word"
  cur_name :: string
  cur_pcb :: "process_control_block option"
  events :: "event list"

text \<open>
  A call either returns a value, or control never comes back to the caller:
  the thread is gone (\<^verbatim>\<open>thread_exit\<close>), the machine is off, an \<^verbatim>\<open>ASSERT\<close> or
  \<^verbatim>\<open>NOT_REACHED\<close> panics the kernel, or an unguarded load hits an unmapped page.
\<close>

datatype stop = ThreadExit | PowerOff | KernelPanic | KernelPageFault

datatype 'a result = Return 'a kstate | Stop stop kstate

text \<open>Sequencing of two statements: what follows a call that does not return never runs.\<close>

definition and_then :: "'a result \<Rightarrow> ('a \<Rightarrow> kstate \<Rightarrow> 'b result) \<Rightarrow> 'b result" where
  "and_then r k = (case r of Return v s \<Rightarrow> k v s | Stop why s \<Rightarrow> Stop why s)"

text \<open>The statement \<^verbatim>\<open>if (c) act ();\<close> whose value, if any, is dropped.\<close>

definition when_then :: "bool \<Rightarrow> (kstate \<Rightarrow> 'a result) \<Rightarrow> kstate \<Rightarrow> unit result" where
  "when_then c act s = (if c then and_then (act s) (\<lambda>_ s'. Return () s') else Return () s)"

definition emit :: "event \<Rightarrow> kstate \<Rightarrow> kstate" where
  "emit e s = s\<lparr>events := events s @ [e]\<rparr>"

section \<open>Collaborators\<close>

text \<open>
  Modelled from the spec: \<^verbatim>\<open>thread_exit\<close> (\<^verbatim>\<open>threads/thread.c\<close>, not among the
  sources) is the collaborator \<^verbatim>\<open>terminate_current_process()\<close>: it ends the calling
  thread and does not return.
\<close>

definition thread_exit :: "kstate \<Rightarrow> unit result" where
  "thread_exit s = Stop ThreadExit (emit Thread_exit s)"

text \<open>
  Modelled from the spec: \<^verbatim>\<open>shutdown_power_off\<close> (\<^verbatim>\<open>devices/shutdown.c\<close>, not among the
  sources) is the collaborator \<^verbatim>\<open>power_off()\<close>, which does not return.
\<close>

definition shutdown_power_off :: "kstate \<Rightarrow> unit result" where
  "shutdown_power_off s = Stop PowerOff (emit Shutdown_power_off s)"

text \<open>
  Modelled from the spec: \<^verbatim>\<open>sema_up\<close> (\<^verbatim>\<open>threads/synch.c\<close>, not among the sources)
  raises the PCB's signal: the semaphore's counter goes up by one.
\<close>

definition sema_up :: "process_control_block \<Rightarrow> process_control_block" where
  "sema_up p = p\<lparr>sema_wait := Suc (sema_wait p)\<rparr>"

text \<open>An ordinary kernel load of \<open>n\<close> consecutive bytes: no check, no fault recovery.\<close>

fun load_bytes :: "memory \<Rightarrow> addr \<Rightarrow> nat \<Rightarrow> byte list option" where
  "load_bytes m a 0 = Some []"
| "load_bytes m a (Suc n) =
     (case m a of
        None \<Rightarrow> None
      | Some b \<Rightarrow> (case load_bytes m (a + 1) n of None \<Rightarrow> None | Some bs \<Rightarrow> Some (b # bs)))"

text \<open>The value of a little-endian byte sequence, as x86 stores an \<^verbatim>\<open>int\<close>.\<close>

fun le_word :: "byte list \<Rightarrow> 32 word" where
  "le_word [] = 0"
| "le_word (b # bs) = ucast b + 256 * le_word bs"

text \<open>
  Modelled from the spec: \<^verbatim>\<open>putbuf\<close> (\<^verbatim>\<open>lib/kernel/console.c\<close>, not among the sources)
  is the collaborator \<^verbatim>\<open>console_write(bytes)\<close>. It is handed the raw pointer and reads
  the \<^verbatim>\<open>size\<close> bytes behind it with ordinary loads, whatever side of the boundary
  they are on.
\<close>

definition putbuf :: "addr \<Rightarrow> 32 word \<Rightarrow> kstate \<Rightarrow> unit result" where
  "putbuf buffer size' s =
     (case load_bytes (mem s) buffer (unat size') of
        None \<Rightarrow> Stop KernelPageFault s
      | Some bs \<Rightarrow> Return () (emit (Putbuf bs) s))"

text \<open>
  \<^verbatim>\<open>process_execute\<close> and \<^verbatim>\<open>process_wait\<close> (\<^verbatim>\<open>userprog/process.c\<close>, not among the
  sources) are parameters of the handler: any function of their argument and the state.
\<close>

record collaborators =
  process_execute :: "addr \<Rightarrow> kstate \<Rightarrow> int32 result"
  process_wait :: "int32 \<Rightarrow> kstate \<Rightarrow> int32 result"

text \<open>
  Modelled from the spec: the opcode enumeration of \<^verbatim>\<open>syscall-nr.h\<close> (not among the
  sources), with the values the spec's section 6 fixes.
\<close>

definition SYS_HALT :: int32 where "SYS_HALT = 0"
definition SYS_EXIT :: int32 where "SYS_EXIT = 1"
definition SYS_EXEC :: int32 where "SYS_EXEC = 2"
definition SYS_WAIT :: int32 where "SYS_WAIT = 3"
definition SYS_CREATE :: int32 where "SYS_CREATE = 4"
definition SYS_REMOVE :: int32 where "SYS_REMOVE = 5"
definition SYS_OPEN :: int32 where "SYS_OPEN = 6"
definition SYS_FILESIZE :: int32 where "SYS_FILESIZE = 7"
definition SYS_READ :: int32 where "SYS_READ = 8"
definition SYS_WRITE :: int32 where "SYS_WRITE = 9"
definition SYS_SEEK :: int32 where "SYS_SEEK = 10"
definition SYS_TELL :: int32 where "SYS_TELL = 11"
definition SYS_CLOSE :: int32 where "SYS_CLOSE = 12"

section \<open>Helper functions on memory access\<close>

text \<open>
  \<^verbatim>\<open>PHYS_BASE\<close> (\<^verbatim>\<open>threads/vaddr.h\<close>, not among the sources) is a parameter of every
  function that uses it.

  \<^verbatim>\<open>check_addr\<close>: \<^verbatim>\<open>if ((void*)uaddr > PHYS_BASE) return false; return true;\<close>
\<close>

definition check_addr :: "addr \<Rightarrow> addr \<Rightarrow> bool" where
  "check_addr PHYS_BASE uaddr = (if uaddr > PHYS_BASE then False else True)"

text \<open>
  Modelled from the spec: the \<^verbatim>\<open>movzbl\<close> of \<^verbatim>\<open>get_user\<close> with the page-fault handler's
  cooperation (\<^verbatim>\<open>userprog/exception.c\<close>, not among the sources). The spec's
  \<^verbatim>\<open>probe_byte\<close>: a fault during this read is intercepted and becomes the value \<open>-1\<close>
  in \<^verbatim>\<open>eax\<close>; a mapped byte is zero-extended.
\<close>

definition movzbl_guarded :: "memory \<Rightarrow> addr \<Rightarrow> int32" where
  "movzbl_guarded m uaddr = (case m uaddr of None \<Rightarrow> - 1 | Some b \<Rightarrow> ucast b)"

definition get_user :: "addr \<Rightarrow> memory \<Rightarrow> addr \<Rightarrow> int32" where
  "get_user PHYS_BASE m uaddr =
     (if \<not> (uaddr < PHYS_BASE) then - 1 else movzbl_guarded m uaddr)"

text \<open>
  \<^verbatim>\<open>memread_user\<close>: the loop over \<open>i\<close>, with the destination buffer \<open>dst\<close> (a kernel
  local of the caller) passed in and returned. The source stores through
  \<^verbatim>\<open>dst + i\<close> with no bound; every caller passes the address of a 4-byte local and
  \<open>bytes = 4\<close>, and the theorems below ask for \<open>bytes \<le> length dst\<close>.
\<close>

function memread_user_loop ::
  "addr \<Rightarrow> memory \<Rightarrow> addr \<Rightarrow> byte list \<Rightarrow> nat \<Rightarrow> nat \<Rightarrow> int32 \<times> byte list" where
  "memread_user_loop PHYS_BASE m src dst bytes i =
     (if i < bytes then
        (let v = get_user PHYS_BASE m (src + of_nat i) in
         if v <s 0 then (- 1, dst)
         else memread_user_loop PHYS_BASE m src (dst[i := ucast (v AND 0xff)]) bytes (Suc i))
      else (of_nat bytes, dst))"
  by pat_completeness auto
termination
  by (relation "measure (\<lambda>(PHYS_BASE, m, src, dst, bytes, i). bytes - i)") auto

declare memread_user_loop.simps [simp del]

definition memread_user ::
  "addr \<Rightarrow> memory \<Rightarrow> addr \<Rightarrow> byte list \<Rightarrow> 32 word \<Rightarrow> int32 \<times> byte list" where
  "memread_user PHYS_BASE m src dst bytes = memread_user_loop PHYS_BASE m src dst (unat bytes) 0"

text \<open>\<^verbatim>\<open>check_buffer\<close>: the loop, with \<^verbatim>\<open>||\<close> evaluated left to right.\<close>

function check_buffer_loop :: "addr \<Rightarrow> memory \<Rightarrow> addr \<Rightarrow> nat \<Rightarrow> nat \<Rightarrow> bool" where
  "check_buffer_loop PHYS_BASE m local_buffer size' i =
     (if i < size' then
        (if \<not> check_addr PHYS_BASE local_buffer then False
         else if get_user PHYS_BASE m local_buffer <s 0 then False
         else check_buffer_loop PHYS_BASE m (local_buffer + 1) size' (Suc i))
      else True)"
  by pat_completeness auto
termination
  by (relation "measure (\<lambda>(PHYS_BASE, m, local_buffer, size', i). size' - i)") auto

declare check_buffer_loop.simps [simp del]

definition check_buffer :: "addr \<Rightarrow> memory \<Rightarrow> addr \<Rightarrow> 32 word \<Rightarrow> bool" where
  "check_buffer PHYS_BASE m buffer size' = check_buffer_loop PHYS_BASE m buffer (unat size') 0"

section \<open>The system calls\<close>

text \<open>
  \<^verbatim>\<open>sys_exit\<close>: the message, the \<^verbatim>\<open>ASSERT (pcb != NULL)\<close>, the two stores, \<^verbatim>\<open>sema_up\<close>,
  \<^verbatim>\<open>thread_exit\<close>, in the order of the source.
\<close>

definition sys_exit :: "int32 \<Rightarrow> kstate \<Rightarrow> unit result" where
  "sys_exit status s =
     (let s1 = emit (Printf_exit (cur_name s) status) s in
      case cur_pcb s1 of
        None \<Rightarrow> Stop KernelPanic s1
      | Some pcb0 \<Rightarrow>
          (let s2 = emit (Store_exited True) (s1\<lparr>cur_pcb := Some (pcb0\<lparr>exited := True\<rparr>)\<rparr>);
               s3 = emit (Store_exitcode status)
                      (s2\<lparr>cur_pcb := Some (pcb0\<lparr>exited := True, exitcode := status\<rparr>)\<rparr>);
               s4 = emit Sema_up
                      (s3\<lparr>cur_pcb := Some (sema_up (pcb0\<lparr>exited := True, exitcode := status\<rparr>))\<rparr>)
           in thread_exit s4))"

text \<open>\<^verbatim>\<open>fail_invalid_access\<close> and \<^verbatim>\<open>sys_badmemory_access\<close>: \<^verbatim>\<open>sys_exit (-1); NOT_REACHED ();\<close>\<close>

definition fail_invalid_access :: "kstate \<Rightarrow> int32 result" where
  "fail_invalid_access s = and_then (sys_exit (- 1) s) (\<lambda>_ s'. Stop KernelPanic s')"

definition sys_badmemory_access :: "kstate \<Rightarrow> int32 result" where
  "sys_badmemory_access s = and_then (sys_exit (- 1) s) (\<lambda>_ s'. Stop KernelPanic s')"

text \<open>
  \<^verbatim>\<open>sys_exec\<close> and \<^verbatim>\<open>sys_wait\<close>. \<^verbatim>\<open>_DEBUG_PRINTF\<close> expands to nothing unless \<^verbatim>\<open>DEBUG\<close>
  is defined, and is left out.
\<close>

definition sys_exec :: "collaborators \<Rightarrow> addr \<Rightarrow> addr \<Rightarrow> kstate \<Rightarrow> int32 result" where
  "sys_exec C PHYS_BASE cmdline s =
     and_then (when_then (get_user PHYS_BASE (mem s) cmdline = - 1) fail_invalid_access s)
       (\<lambda>_ s1. and_then (process_execute C cmdline s1) (\<lambda>child_tid s2. Return child_tid s2))"

definition sys_wait :: "collaborators \<Rightarrow> int32 \<Rightarrow> kstate \<Rightarrow> int32 result" where
  "sys_wait C pid s = process_wait C pid s"

text \<open>
  \<^verbatim>\<open>sys_write\<close> returns its \<^verbatim>\<open>bool\<close> together with \<^verbatim>\<open>*ret\<close>, which it leaves as it
  found it (\<open>ret\<close>) on the paths that do not store into it.
\<close>

definition sys_write ::
  "addr \<Rightarrow> int32 \<Rightarrow> addr \<Rightarrow> 32 word \<Rightarrow> int32 \<Rightarrow> kstate \<Rightarrow> (bool \<times> int32) result" where
  "sys_write PHYS_BASE fd buffer size' ret s =
     (if get_user PHYS_BASE (mem s) buffer = - 1 then
        and_then (thread_exit s) (\<lambda>_ s1. Return (False, ret) s1)
      else if fd = 1 then
        and_then (putbuf buffer size' s) (\<lambda>_ s1. Return (True, size') s1)
      else Return (False, ret) (emit Printf_sys_write_unimplemented s))"

section \<open>The dispatcher\<close>

text \<open>
  The idiom of every case, \<^verbatim>\<open>if (memread_user (f->esp + off, &x, 4) == -1)
  fail_invalid_access ();\<close>: the local \<open>x\<close> starts as four bytes of no known value
  (zeros here; a successful read overwrites all four) and is returned as the word it
  holds afterwards.
\<close>

definition read_arg :: "addr \<Rightarrow> 32 word \<Rightarrow> kstate \<Rightarrow> 32 word result" where
  "read_arg PHYS_BASE off s =
     (let (r, x) = memread_user PHYS_BASE (mem s) (f_esp s + off) [0, 0, 0, 0] 4 in
      and_then (when_then (r = - 1) fail_invalid_access s) (\<lambda>_ s1. Return (le_word x) s1))"

text \<open>The \<^verbatim>\<open>unhandled:\<close> / \<^verbatim>\<open>default:\<close> label.\<close>

definition unhandled :: "int32 \<Rightarrow> kstate \<Rightarrow> unit result" where
  "unhandled syscall_number s =
     sys_exit (- 1) (emit (Printf_syscall_unimplemented syscall_number) s)"

definition case_SYS_EXIT :: "addr \<Rightarrow> kstate \<Rightarrow> unit result" where
  "case_SYS_EXIT PHYS_BASE s =
     and_then (read_arg PHYS_BASE 4 s) (\<lambda>exitcode s1.
     and_then (sys_exit exitcode s1) (\<lambda>_ s2. Stop KernelPanic s2))"

text \<open>\<^verbatim>\<open>case SYS_HALT\<close> has no \<^verbatim>\<open>break\<close>: after the call comes the text of \<^verbatim>\<open>case SYS_EXIT\<close>.\<close>

definition case_SYS_HALT :: "addr \<Rightarrow> kstate \<Rightarrow> unit result" where
  "case_SYS_HALT PHYS_BASE s =
     and_then (shutdown_power_off s) (\<lambda>_ s1. case_SYS_EXIT PHYS_BASE s1)"

definition case_SYS_EXEC :: "collaborators \<Rightarrow> addr \<Rightarrow> kstate \<Rightarrow> unit result" where
  "case_SYS_EXEC C PHYS_BASE s =
     and_then (read_arg PHYS_BASE 4 s) (\<lambda>cmdline s1.
     and_then (sys_exec C PHYS_BASE cmdline s1) (\<lambda>return_code s2.
     Return () (s2\<lparr>f_eax := return_code\<rparr>)))"

definition case_SYS_WAIT :: "collaborators \<Rightarrow> addr \<Rightarrow> kstate \<Rightarrow> unit result" where
  "case_SYS_WAIT C PHYS_BASE s =
     and_then (read_arg PHYS_BASE 4 s) (\<lambda>pid s1.
     and_then (sys_wait C pid s1) (\<lambda>ret s2.
     Return () (s2\<lparr>f_eax := ret\<rparr>)))"

text \<open>\<^verbatim>\<open>return_code\<close> is a local with no initial value; it is \<open>0\<close> here until stored.\<close>

definition case_SYS_WRITE :: "addr \<Rightarrow> kstate \<Rightarrow> unit result" where
  "case_SYS_WRITE PHYS_BASE s =
     and_then (read_arg PHYS_BASE 4 s) (\<lambda>fd s1.
     and_then (read_arg PHYS_BASE 8 s1) (\<lambda>buffer s2.
     and_then (read_arg PHYS_BASE 12 s2) (\<lambda>size' s3.
     and_then (sys_write PHYS_BASE fd buffer size' 0 s3) (\<lambda>(ok, return_code) s4.
     and_then (when_then (\<not> ok) thread_exit s4) (\<lambda>_ s5.
     Return () (s5\<lparr>f_eax := return_code\<rparr>))))))"

text \<open>
  \<^verbatim>\<open>int syscall_number = *(int *)(f->esp);\<close> is an ordinary load of four bytes.
\<close>

definition load_int :: "addr \<Rightarrow> kstate \<Rightarrow> int32 result" where
  "load_int a s =
     (case load_bytes (mem s) a 4 of
        None \<Rightarrow> Stop KernelPageFault s
      | Some bs \<Rightarrow> Return (le_word bs) s)"

definition syscall_handler :: "collaborators \<Rightarrow> addr \<Rightarrow> kstate \<Rightarrow> unit result" where
  "syscall_handler C PHYS_BASE s =
     and_then (when_then (\<not> check_addr PHYS_BASE (f_esp s)) thread_exit s) (\<lambda>_ s1.
     and_then (when_then (\<not> check_buffer PHYS_BASE (mem s1) (f_esp s1) 4) sys_badmemory_access s1)
       (\<lambda>_ s2.
     and_then (load_int (f_esp s2) s2) (\<lambda>syscall_number s3.
       if syscall_number = SYS_HALT then case_SYS_HALT PHYS_BASE s3
       else if syscall_number = SYS_EXIT then case_SYS_EXIT PHYS_BASE s3
       else if syscall_number = SYS_EXEC then case_SYS_EXEC C PHYS_BASE s3
       else if syscall_number = SYS_WAIT then case_SYS_WAIT C PHYS_BASE s3
       else if syscall_number = SYS_CREATE then unhandled syscall_number s3
       else if syscall_number = SYS_REMOVE then unhandled syscall_number s3
       else if syscall_number = SYS_OPEN then unhandled syscall_number s3
       else if syscall_number = SYS_FILESIZE then unhandled syscall_number s3
       else if syscall_number = SYS_READ then unhandled syscall_number s3
       else if syscall_number = SYS_WRITE then case_SYS_WRITE PHYS_BASE s3
       else if syscall_number = SYS_SEEK then unhandled syscall_number s3
       else if syscall_number = SYS_TELL then unhandled syscall_number s3
       else if syscall_number = SYS_CLOSE then unhandled syscall_number s3
       else unhandled syscall_number s3)))"

section \<open>Reading an outcome\<close>

text \<open>The state a call leaves behind, whether it returned or not, and the events it added.\<close>

fun state_of :: "'a result \<Rightarrow> kstate" where
  "state_of (Return v s) = s"
| "state_of (Stop why s) = s"

definition new_events :: "kstate \<Rightarrow> 'a result \<Rightarrow> event list" where
  "new_events s r = drop (length (events s)) (events (state_of r))"

text \<open>\<open>precedes a b es\<close>: \<open>b\<close> occurs in \<open>es\<close> after the first occurrence of \<open>a\<close>.\<close>

fun precedes :: "event \<Rightarrow> event \<Rightarrow> event list \<Rightarrow> bool" where
  "precedes a b [] = False"
| "precedes a b (e # es) = (if e = a then b \<in> set es else precedes a b es)"

text \<open>
  The state \<^verbatim>\<open>sys_exit (status)\<close> leaves when the PCB is \<open>p\<close>: both fields written, the
  semaphore raised once, and the five events of the call in the order of the source.
\<close>

definition exit_path :: "int32 \<Rightarrow> process_control_block \<Rightarrow> kstate \<Rightarrow> kstate" where
  "exit_path status p s =
     s\<lparr>cur_pcb := Some (p\<lparr>exited := True, exitcode := status, sema_wait := Suc (sema_wait p)\<rparr>),
       events := events s @ [Printf_exit (cur_name s) status, Store_exited True,
                             Store_exitcode status, Sema_up, Thread_exit]\<rparr>"

text \<open>
  The frame passes the dispatcher's two checks and the opcode word it holds is \<open>n\<close>.
\<close>

definition frame_ok :: "addr \<Rightarrow> kstate \<Rightarrow> int32 \<Rightarrow> bool" where
  "frame_ok PHYS_BASE s n =
     (check_addr PHYS_BASE (f_esp s) \<and> check_buffer PHYS_BASE (mem s) (f_esp s) 4 \<and>
      load_int (f_esp s) s = Return n s)"

text \<open>The argument word at \<^verbatim>\<open>f->esp + off\<close> cannot be read: \<^verbatim>\<open>memread_user\<close> returns \<open>-1\<close>.\<close>

definition arg_faults :: "addr \<Rightarrow> kstate \<Rightarrow> 32 word \<Rightarrow> bool" where
  "arg_faults PHYS_BASE s off =
     (fst (memread_user PHYS_BASE (mem s) (f_esp s + off) [0, 0, 0, 0] 4) = - 1)"

section \<open>Example frames\<close>

text \<open>
  Memory holding the bytes \<open>bs\<close> from address \<open>base\<close> on and nothing else; the examples
  take the boundary at \<open>0xC0000000\<close>, where the Pintos loader puts \<^verbatim>\<open>PHYS_BASE\<close>.
\<close>

fun bytes_at :: "addr \<Rightarrow> byte list \<Rightarrow> memory" where
  "bytes_at base [] = Map.empty"
| "bytes_at base (b # bs) = (bytes_at (base + 1) bs)(base \<mapsto> b)"

definition ex_collaborators :: collaborators where
  "ex_collaborators = \<lparr>process_execute = (\<lambda>cmdline s. Return 7 s), process_wait = (\<lambda>pid s. Return 0 s)\<rparr>"

definition ex_pcb :: process_control_block where
  "ex_pcb = \<lparr>exited = False, exitcode = 0, sema_wait = 0\<rparr>"

definition ex_state :: "addr \<Rightarrow> memory \<Rightarrow> kstate" where
  "ex_state sp m =
     \<lparr>mem = m, f_esp = sp, f_eax = 0, cur_name = ''child'', cur_pcb = Some ex_pcb, events = []\<rparr>"

text \<open>A stack pointer above the boundary.\<close>

definition ex_bad_esp :: kstate where
  "ex_bad_esp = ex_state 0xC0000004 Map.empty"

text \<open>The opcode word crosses the boundary: its last two bytes are kernel addresses.\<close>

definition ex_bad_opcode :: kstate where
  "ex_bad_opcode = ex_state 0xBFFFFFFE (bytes_at 0xBFFFFFFE [1, 0])"

text \<open>\<^verbatim>\<open>exit\<close> whose argument word lies at the boundary.\<close>

definition ex_exit_bad_arg :: kstate where
  "ex_exit_bad_arg = ex_state 0xBFFFFFFC (bytes_at 0xBFFFFFFC [1, 0, 0, 0])"

text \<open>\<^verbatim>\<open>exit (5)\<close>.\<close>

definition ex_exit5 :: kstate where
  "ex_exit5 = ex_state 0xBFFFFFF8 (bytes_at 0xBFFFFFF8 [1, 0, 0, 0, 5, 0, 0, 0])"

text \<open>\<^verbatim>\<open>exec\<close> with the command line at \<open>0xC0000000\<close>.\<close>

definition ex_exec_bad_cmdline :: kstate where
  "ex_exec_bad_cmdline = ex_state 0xBFFFFFF8 (bytes_at 0xBFFFFFF8 [2, 0, 0, 0, 0, 0, 0, 0xC0])"

text \<open>\<^verbatim>\<open>write\<close> whose second and third argument words are kernel addresses.\<close>

definition ex_write_bad_arg1 :: kstate where
  "ex_write_bad_arg1 = ex_state 0xBFFFFFF8 (bytes_at 0xBFFFFFF8 [9, 0, 0, 0, 1, 0, 0, 0])"

text \<open>\<^verbatim>\<open>write\<close> whose third argument word is a kernel address.\<close>

definition ex_write_bad_arg2 :: kstate where
  "ex_write_bad_arg2 =
     ex_state 0xBFFFFFF4 (bytes_at 0xBFFFFFF4 [9, 0, 0, 0, 1, 0, 0, 0, 0xF0, 0xFF, 0xFF, 0xBF])"

text \<open>\<^verbatim>\<open>write (1, "hi", 2)\<close> with the two characters at \<open>0xBFFFFFF0\<close>.\<close>

definition ex_write_hi :: kstate where
  "ex_write_hi =
     ex_state 0xBFFFFFE0
       (bytes_at 0xBFFFFFE0 [9, 0, 0, 0, 1, 0, 0, 0, 0xF0, 0xFF, 0xFF, 0xBF, 2, 0, 0, 0]
        ++ bytes_at 0xBFFFFFF0 [0x68, 0x69])"

text \<open>
  \<^verbatim>\<open>write (1, 0xBFFFFFFF, 2)\<close>: the first byte of the buffer is the last user byte,
  the second is the kernel's byte at \<open>0xC0000000\<close>.
\<close>

definition ex_write_straddle :: kstate where
  "ex_write_straddle =
     ex_state 0xBFFFFFE0
       (bytes_at 0xBFFFFFE0 [9, 0, 0, 0, 1, 0, 0, 0, 0xFF, 0xFF, 0xFF, 0xBF, 2, 0, 0, 0]
        ++ bytes_at 0xBFFFFFFF [0x68, 0x53])"

text \<open>\<^verbatim>\<open>write (2, "hi", 2)\<close>.\<close>

definition ex_write_fd2 :: kstate where
  "ex_write_fd2 =
     ex_state 0xBFFFFFE0
       (bytes_at 0xBFFFFFE0 [9, 0, 0, 0, 2, 0, 0, 0, 0xF0, 0xFF, 0xFF, 0xBF, 2, 0, 0, 0]
        ++ bytes_at 0xBFFFFFF0 [0x68, 0x69])"

text \<open>\<^verbatim>\<open>halt\<close>, \<^verbatim>\<open>create\<close> (opcode 4) and opcode 13, which the enumeration does not have.\<close>

definition ex_halt :: kstate where
  "ex_halt = ex_state 0xBFFFFFFC (bytes_at 0xBFFFFFFC [0, 0, 0, 0])"

definition ex_create :: kstate where
  "ex_create = ex_state 0xBFFFFFFC (bytes_at 0xBFFFFFFC [4, 0, 0, 0])"

definition ex_opcode13 :: kstate where
  "ex_opcode13 = ex_state 0xBFFFFFFC (bytes_at 0xBFFFFFFC [13, 0, 0, 0])"

section \<open>Sequencing and the exit path\<close>

lemmas syscall_nr_defs =
  SYS_HALT_def SYS_EXIT_def SYS_EXEC_def SYS_WAIT_def SYS_CREATE_def SYS_REMOVE_def
  SYS_OPEN_def SYS_FILESIZE_def SYS_READ_def SYS_WRITE_def SYS_SEEK_def SYS_TELL_def
  SYS_CLOSE_def

lemma and_then_Return [simp]: "and_then (Return v s) k = k v s"
  by (simp add: and_then_def)

lemma and_then_Stop [simp]: "and_then (Stop why s) k = Stop why s"
  by (simp add: and_then_def)

lemma and_then_Return_right [simp]: "and_then r Return = r"
  by (cases r) simp_all

lemma when_then_False [simp]: "when_then False act s = Return () s"
  by (simp add: when_then_def)

lemma when_then_True [simp]: "when_then True act s = and_then (act s) (\<lambda>_ s'. Return () s')"
  by (simp add: when_then_def)

lemma sys_exit_pcb:
  "cur_pcb s = Some p \<Longrightarrow> sys_exit status s = Stop ThreadExit (exit_path status p s)"
  by (simp add: sys_exit_def exit_path_def thread_exit_def emit_def sema_up_def Let_def)

lemma sys_exit_no_pcb:
  "cur_pcb s = None \<Longrightarrow>
   sys_exit status s = Stop KernelPanic (emit (Printf_exit (cur_name s) status) s)"
  by (simp add: sys_exit_def emit_def Let_def)

lemma fail_invalid_access_pcb:
  "cur_pcb s = Some p \<Longrightarrow> fail_invalid_access s = Stop ThreadExit (exit_path (- 1) p s)"
  by (simp add: fail_invalid_access_def sys_exit_pcb)

lemma sys_badmemory_access_pcb:
  "cur_pcb s = Some p \<Longrightarrow> sys_badmemory_access s = Stop ThreadExit (exit_path (- 1) p s)"
  by (simp add: sys_badmemory_access_def sys_exit_pcb)

section \<open>Bytes as words\<close>

lemma uint_ucast_byte: "uint (ucast (b :: byte) :: int32) = uint b"
  by (simp add: uint_up_ucast is_up)

lemma sint_ucast_byte: "sint (ucast (b :: byte) :: int32) = uint b"
proof -
  have "uint b < 2 ^ 8"
    using uint_lt2p [of b] by simp
  then have "uint b < 2 ^ 31"
    by simp
  moreover have "- (2 ^ 31) \<le> uint b"
    by (rule order_trans [OF _ uint_nonnegative]) simp
  ultimately have "signed_take_bit 31 (uint b) = uint b"
    by (simp add: signed_take_bit_int_eq_self)
  then show ?thesis
    by (simp add: sint_uint uint_ucast_byte)
qed

lemma ucast_byte_nonneg: "\<not> (ucast (b :: byte) :: int32) <s 0"
  by (simp add: word_sless_alt sint_ucast_byte)

lemma ucast_byte_not_minus1: "(ucast (b :: byte) :: int32) \<noteq> - 1"
proof
  assume "(ucast b :: int32) = - 1"
  then have "sint (ucast b :: int32) = sint (- 1 :: int32)"
    by simp
  then show False
    using uint_nonnegative [of b] by (simp add: sint_ucast_byte)
qed

lemma ucast_and_ff: "(ucast ((w :: int32) AND 0xff) :: byte) = ucast w"
proof -
  have m: "(0xff :: int32) = mask 8"
    by (simp add: mask_eq_exp_minus_1)
  show ?thesis
    unfolding m by (rule bit_word_eqI) (simp add: bit_simps)
qed

lemma ucast_ucast_byte: "(ucast (ucast (b :: byte) :: int32) :: byte) = b"
  by (simp add: ucast_up_ucast_id is_up)

lemma minus1_sless: "(- 1 :: int32) <s 0"
  by (simp add: word_sless_alt)

section \<open>The probe and the loops over it\<close>

lemma check_addr_iff: "check_addr PHYS_BASE uaddr \<longleftrightarrow> uaddr \<le> PHYS_BASE"
  by (auto simp: check_addr_def)

lemma get_user_mapped:
  "uaddr < PHYS_BASE \<Longrightarrow> m uaddr = Some b \<Longrightarrow> get_user PHYS_BASE m uaddr = ucast b"
  by (simp add: get_user_def movzbl_guarded_def)

lemma get_user_sless_iff:
  "get_user PHYS_BASE m uaddr <s 0 \<longleftrightarrow> \<not> uaddr < PHYS_BASE \<or> m uaddr = None"
  by (auto simp: get_user_def movzbl_guarded_def minus1_sless ucast_byte_nonneg
      split: option.splits)

lemma get_user_minus1_iff:
  "get_user PHYS_BASE m uaddr = - 1 \<longleftrightarrow> \<not> uaddr < PHYS_BASE \<or> m uaddr = None"
  by (auto simp: get_user_def movzbl_guarded_def ucast_byte_not_minus1 split: option.splits)

text \<open>
  The loop of \<^verbatim>\<open>memread_user\<close> from index \<open>i\<close> on, when the bytes \<open>xs ! j\<close> for
  \<open>i \<le> j < k\<close> can be read and the byte at offset \<open>k\<close> cannot.
\<close>

lemma memread_user_loop_fault:
  assumes "i \<le> k" "k < n" "n \<le> length dst" "length xs = k"
    and "\<forall>j. i \<le> j \<and> j < k \<longrightarrow>
           src + of_nat j < PHYS_BASE \<and> m (src + of_nat j) = Some (xs ! j)"
    and "\<not> src + of_nat k < PHYS_BASE \<or> m (src + of_nat k) = None"
  shows "memread_user_loop PHYS_BASE m src dst n i = (- 1, take i dst @ drop i xs @ drop k dst)"
  using assms
proof (induction "k - i" arbitrary: i dst)
  case 0
  then have "i = k" by simp
  with 0 show ?case
    by (subst memread_user_loop.simps) (simp add: get_user_sless_iff)
next
  case (Suc d)
  then have ik: "i < k" by simp
  with Suc.prems have rd: "src + of_nat i < PHYS_BASE" "m (src + of_nat i) = Some (xs ! i)"
    by auto
  let ?dst = "dst[i := xs ! i]"
  have step: "memread_user_loop PHYS_BASE m src dst n i =
      memread_user_loop PHYS_BASE m src ?dst n (Suc i)"
    using ik Suc.prems(2) rd
    by (subst memread_user_loop.simps)
       (simp add: get_user_mapped ucast_byte_nonneg ucast_and_ff ucast_ucast_byte)
  have "memread_user_loop PHYS_BASE m src ?dst n (Suc i) =
          (- 1, take (Suc i) ?dst @ drop (Suc i) xs @ drop k ?dst)"
    using Suc.hyps Suc.prems ik by (intro Suc.hyps(1)) auto
  moreover have "take (Suc i) ?dst = take i dst @ [xs ! i]"
    using ik Suc.prems by (simp add: take_Suc_conv_app_nth)
  moreover have "drop k ?dst = drop k dst"
    using ik by simp
  moreover have "drop i xs = xs ! i # drop (Suc i) xs"
    using ik Suc.prems by (simp add: Cons_nth_drop_Suc)
  ultimately show ?case
    using step by simp
qed

text \<open>The same loop when every byte up to \<open>n\<close> can be read.\<close>

lemma memread_user_loop_ok:
  assumes "i \<le> n" "n \<le> length dst" "length xs = n"
    and "\<forall>j. i \<le> j \<and> j < n \<longrightarrow>
           src + of_nat j < PHYS_BASE \<and> m (src + of_nat j) = Some (xs ! j)"
  shows "memread_user_loop PHYS_BASE m src dst n i =
           (of_nat n, take i dst @ drop i xs @ drop n dst)"
  using assms
proof (induction "n - i" arbitrary: i dst)
  case 0
  then have "i = n" by simp
  with 0 show ?case
    by (subst memread_user_loop.simps) simp
next
  case (Suc d)
  then have ik: "i < n" by simp
  with Suc.prems have rd: "src + of_nat i < PHYS_BASE" "m (src + of_nat i) = Some (xs ! i)"
    by auto
  let ?dst = "dst[i := xs ! i]"
  have step: "memread_user_loop PHYS_BASE m src dst n i =
      memread_user_loop PHYS_BASE m src ?dst n (Suc i)"
    using ik rd
    by (subst memread_user_loop.simps)
       (simp add: get_user_mapped ucast_byte_nonneg ucast_and_ff ucast_ucast_byte)
  have "memread_user_loop PHYS_BASE m src ?dst n (Suc i) =
          (of_nat n, take (Suc i) ?dst @ drop (Suc i) xs @ drop n ?dst)"
    using Suc.hyps Suc.prems ik by (intro Suc.hyps(1)) auto
  moreover have "take (Suc i) ?dst = take i dst @ [xs ! i]"
    using ik Suc.prems by (simp add: take_Suc_conv_app_nth)
  moreover have "drop n ?dst = drop n dst"
    using ik by simp
  moreover have "drop i xs = xs ! i # drop (Suc i) xs"
    using ik Suc.prems by (simp add: Cons_nth_drop_Suc)
  ultimately show ?case
    using step by simp
qed

text \<open>A range \<^verbatim>\<open>check_buffer\<close> accepts can be loaded, byte for byte.\<close>

lemma check_buffer_loop_load:
  "check_buffer_loop PHYS_BASE m a n i \<Longrightarrow>
   \<exists>bs. load_bytes m a (n - i) = Some bs \<and> length bs = n - i"
proof (induction PHYS_BASE m a n i rule: check_buffer_loop.induct)
  case (1 PHYS_BASE m a n i)
  show ?case
  proof (cases "i < n")
    case False
    then show ?thesis by simp
  next
    case True
    from "1.prems" True have c: "check_addr PHYS_BASE a" "\<not> get_user PHYS_BASE m a <s 0"
      and r: "check_buffer_loop PHYS_BASE m (a + 1) n (Suc i)"
      by (subst (asm) check_buffer_loop.simps, simp split: if_splits)+
    from c obtain b where b: "m a = Some b"
      by (auto simp: get_user_sless_iff)
    from "1.IH" [OF True _ c(2) r] c(1) obtain bs
      where "load_bytes m (a + 1) (n - Suc i) = Some bs" "length bs = n - Suc i"
      by auto
    moreover have "n - i = Suc (n - Suc i)"
      using True by simp
    ultimately show ?thesis
      using b by simp
  qed
qed

lemma check_buffer_load:
  "check_buffer PHYS_BASE m a n \<Longrightarrow>
   \<exists>bs. load_bytes m a (unat n) = Some bs \<and> length bs = unat n"
  using check_buffer_loop_load [of PHYS_BASE m a "unat n" 0] by (simp add: check_buffer_def)

lemma load_bytes_nth:
  "load_bytes m a n = Some bs \<Longrightarrow> j < n \<Longrightarrow> m (a + of_nat j) = Some (bs ! j)"
proof (induction n arbitrary: a bs j)
  case 0
  then show ?case by simp
next
  case (Suc n)
  from Suc.prems(1) obtain b bs' where b: "m a = Some b"
    and l: "load_bytes m (a + 1) n = Some bs'" and bs: "bs = b # bs'"
    by (auto split: option.splits)
  show ?case
  proof (cases j)
    case 0
    with b bs show ?thesis by simp
  next
    case (Suc j')
    with Suc.prems(2) have "j' < n" by simp
    from Suc.IH [OF l this] show ?thesis
      using Suc bs by (simp add: ac_simps)
  qed
qed

lemma load_bytes_numeral:
  "load_bytes m a (numeral k) =
     (case m a of
        None \<Rightarrow> None
      | Some b \<Rightarrow>
          (case load_bytes m (a + 1) (pred_numeral k) of
             None \<Rightarrow> None
           | Some bs \<Rightarrow> Some (b # bs)))"
  by (simp add: numeral_eq_Suc)

section \<open>The cases of the dispatcher\<close>

lemma read_arg_fault:
  "cur_pcb s = Some p \<Longrightarrow> arg_faults PHYS_BASE s off \<Longrightarrow>
   read_arg PHYS_BASE off s = Stop ThreadExit (exit_path (- 1) p s)"
  by (auto simp: read_arg_def arg_faults_def fail_invalid_access_pcb split: prod.splits)

lemma read_arg_fault_stops:
  "arg_faults PHYS_BASE s off \<Longrightarrow> \<exists>why s'. read_arg PHYS_BASE off s = Stop why s'"
  by (cases "cur_pcb s")
     (auto simp: read_arg_def arg_faults_def fail_invalid_access_def sys_exit_pcb sys_exit_no_pcb
        split: prod.splits)

lemma read_arg_ok:
  "\<not> arg_faults PHYS_BASE s off \<Longrightarrow>
   read_arg PHYS_BASE off s =
     Return (le_word (snd (memread_user PHYS_BASE (mem s) (f_esp s + off) [0, 0, 0, 0] 4))) s"
  by (auto simp: read_arg_def arg_faults_def split: prod.splits)

lemma handler_bad_esp:
  "\<not> check_addr PHYS_BASE (f_esp s) \<Longrightarrow>
   syscall_handler C PHYS_BASE s = Stop ThreadExit (emit Thread_exit s)"
  by (simp add: syscall_handler_def thread_exit_def)

lemma handler_bad_opcode:
  "check_addr PHYS_BASE (f_esp s) \<Longrightarrow> \<not> check_buffer PHYS_BASE (mem s) (f_esp s) 4 \<Longrightarrow>
   cur_pcb s = Some p \<Longrightarrow>
   syscall_handler C PHYS_BASE s = Stop ThreadExit (exit_path (- 1) p s)"
  by (simp add: syscall_handler_def sys_badmemory_access_pcb)

lemma handler_dispatch:
  "frame_ok PHYS_BASE s n \<Longrightarrow>
   syscall_handler C PHYS_BASE s =
     (if n = SYS_HALT then case_SYS_HALT PHYS_BASE s
      else if n = SYS_EXIT then case_SYS_EXIT PHYS_BASE s
      else if n = SYS_EXEC then case_SYS_EXEC C PHYS_BASE s
      else if n = SYS_WAIT then case_SYS_WAIT C PHYS_BASE s
      else if n = SYS_WRITE then case_SYS_WRITE PHYS_BASE s
      else unhandled n s)"
  by (simp add: frame_ok_def syscall_handler_def syscall_nr_defs)

lemma handler_write:
  "frame_ok PHYS_BASE s SYS_WRITE \<Longrightarrow>
   syscall_handler C PHYS_BASE s = case_SYS_WRITE PHYS_BASE s"
  using handler_dispatch [of PHYS_BASE s SYS_WRITE C] by (simp add: syscall_nr_defs)

lemma handler_exec:
  "frame_ok PHYS_BASE s SYS_EXEC \<Longrightarrow>
   syscall_handler C PHYS_BASE s = case_SYS_EXEC C PHYS_BASE s"
  using handler_dispatch [of PHYS_BASE s SYS_EXEC C] by (simp add: syscall_nr_defs)

lemma unhandled_pcb:
  "cur_pcb s = Some p \<Longrightarrow>
   unhandled n s =
     Stop ThreadExit (exit_path (- 1) p (emit (Printf_syscall_unimplemented n) s))"
  by (simp add: unhandled_def sys_exit_pcb emit_def)

lemma case_SYS_HALT_eq: "case_SYS_HALT PHYS_BASE s = Stop PowerOff (emit Shutdown_power_off s)"
  by (simp add: case_SYS_HALT_def shutdown_power_off_def)

lemma case_SYS_EXIT_ok:
  assumes "read_arg PHYS_BASE 4 s = Return status s" "cur_pcb s = Some p"
  shows "case_SYS_EXIT PHYS_BASE s = Stop ThreadExit (exit_path status p s)"
  using assms by (simp add: case_SYS_EXIT_def sys_exit_pcb)

lemma first_arg_fault:
  assumes "arg_faults PHYS_BASE s 4" "cur_pcb s = Some p"
  shows "case_SYS_EXIT PHYS_BASE s = Stop ThreadExit (exit_path (- 1) p s)"
    and "case_SYS_EXEC C PHYS_BASE s = Stop ThreadExit (exit_path (- 1) p s)"
    and "case_SYS_WAIT C PHYS_BASE s = Stop ThreadExit (exit_path (- 1) p s)"
    and "case_SYS_WRITE PHYS_BASE s = Stop ThreadExit (exit_path (- 1) p s)"
  using assms
  by (simp_all add: case_SYS_EXIT_def case_SYS_EXEC_def case_SYS_WAIT_def case_SYS_WRITE_def
        read_arg_fault)

lemma case_SYS_EXEC_bad_cmdline:
  assumes "read_arg PHYS_BASE 4 s = Return cmdline s" "get_user PHYS_BASE (mem s) cmdline = - 1"
    "cur_pcb s = Some p"
  shows "case_SYS_EXEC C PHYS_BASE s = Stop ThreadExit (exit_path (- 1) p s)"
  using assms by (simp add: case_SYS_EXEC_def sys_exec_def fail_invalid_access_pcb)

lemma case_SYS_EXEC_ok:
  assumes "read_arg PHYS_BASE 4 s = Return cmdline s" "get_user PHYS_BASE (mem s) cmdline \<noteq> - 1"
  shows "case_SYS_EXEC C PHYS_BASE s =
     and_then (process_execute C cmdline s) (\<lambda>return_code s2. Return () (s2\<lparr>f_eax := return_code\<rparr>))"
  using assms by (simp add: case_SYS_EXEC_def sys_exec_def)

lemma case_SYS_WRITE_args:
  assumes "read_arg PHYS_BASE 4 s = Return fd s" "read_arg PHYS_BASE 8 s = Return buffer s"
    "read_arg PHYS_BASE 12 s = Return size' s"
  shows "case_SYS_WRITE PHYS_BASE s =
     and_then (sys_write PHYS_BASE fd buffer size' 0 s) (\<lambda>(ok, return_code) s4.
     and_then (when_then (\<not> ok) thread_exit s4) (\<lambda>_ s5.
     Return () (s5\<lparr>f_eax := return_code\<rparr>)))"
  using assms by (simp add: case_SYS_WRITE_def)

lemma write_second_arg_fault:
  assumes "read_arg PHYS_BASE 4 s = Return fd s" "arg_faults PHYS_BASE s 8" "cur_pcb s = Some p"
  shows "case_SYS_WRITE PHYS_BASE s = Stop ThreadExit (exit_path (- 1) p s)"
  using assms by (simp add: case_SYS_WRITE_def read_arg_fault)

lemma write_third_arg_fault:
  assumes "read_arg PHYS_BASE 4 s = Return fd s" "read_arg PHYS_BASE 8 s = Return buffer s"
    "arg_faults PHYS_BASE s 12" "cur_pcb s = Some p"
  shows "case_SYS_WRITE PHYS_BASE s = Stop ThreadExit (exit_path (- 1) p s)"
  using assms by (simp add: case_SYS_WRITE_def read_arg_fault)

lemma write_bad_buffer:
  assumes "read_arg PHYS_BASE 4 s = Return fd s" "read_arg PHYS_BASE 8 s = Return buffer s"
    "read_arg PHYS_BASE 12 s = Return size' s"
    "get_user PHYS_BASE (mem s) buffer = - 1"
  shows "case_SYS_WRITE PHYS_BASE s = Stop ThreadExit (s\<lparr>events := events s @ [Thread_exit]\<rparr>)"
  using assms by (simp add: case_SYS_WRITE_args sys_write_def thread_exit_def emit_def)

lemma write_console:
  assumes "read_arg PHYS_BASE 4 s = Return 1 s" "read_arg PHYS_BASE 8 s = Return buffer s"
    "read_arg PHYS_BASE 12 s = Return size' s"
    "get_user PHYS_BASE (mem s) buffer \<noteq> - 1"
    "load_bytes (mem s) buffer (unat size') = Some bs"
  shows "case_SYS_WRITE PHYS_BASE s =
     Return () (s\<lparr>f_eax := size', events := events s @ [Putbuf bs]\<rparr>)"
  using assms by (simp add: case_SYS_WRITE_args sys_write_def putbuf_def emit_def)

lemma write_other_fd:
  assumes "read_arg PHYS_BASE 4 s = Return fd s" "read_arg PHYS_BASE 8 s = Return buffer s"
    "read_arg PHYS_BASE 12 s = Return size' s"
    "get_user PHYS_BASE (mem s) buffer \<noteq> - 1" "fd \<noteq> 1"
  shows "case_SYS_WRITE PHYS_BASE s =
     Stop ThreadExit (s\<lparr>events := events s @ [Printf_sys_write_unimplemented, Thread_exit]\<rparr>)"
  using assms by (simp add: case_SYS_WRITE_args sys_write_def thread_exit_def emit_def)

section \<open>Evaluating the example frames\<close>

lemmas example_defs =
  ex_bad_esp_def ex_bad_opcode_def ex_exit_bad_arg_def ex_exit5_def ex_exec_bad_cmdline_def
  ex_write_bad_arg1_def ex_write_bad_arg2_def ex_write_hi_def ex_write_straddle_def
  ex_write_fd2_def ex_halt_def ex_create_def ex_opcode13_def ex_state_def

lemmas probe_defs =
  check_addr_def check_buffer_def check_buffer_loop.simps get_user_def movzbl_guarded_def
  memread_user_def memread_user_loop.simps word_sless_alt map_add_def

lemmas frame_defs =
  frame_ok_def arg_faults_def read_arg_def load_int_def load_bytes_numeral

lemma ex_halt_frame: "frame_ok 0xC0000000 ex_halt SYS_HALT"
  by (simp add: example_defs frame_defs probe_defs SYS_HALT_def)

lemma ex_create_frame: "frame_ok 0xC0000000 ex_create SYS_CREATE"
  by (simp add: example_defs frame_defs probe_defs SYS_CREATE_def)

lemma ex_opcode13_frame: "frame_ok 0xC0000000 ex_opcode13 13"
  by (simp add: example_defs frame_defs probe_defs)

lemma ex_exit_bad_arg_frame:
  "frame_ok 0xC0000000 ex_exit_bad_arg SYS_EXIT" "arg_faults 0xC0000000 ex_exit_bad_arg 4"
  by (simp_all add: example_defs frame_defs probe_defs SYS_EXIT_def)

lemma ex_exit5_frame:
  "frame_ok 0xC0000000 ex_exit5 SYS_EXIT" "read_arg 0xC0000000 4 ex_exit5 = Return 5 ex_exit5"
  by (simp_all add: example_defs frame_defs probe_defs SYS_EXIT_def)

lemma ex_bad_opcode_frame:
  "check_addr 0xC0000000 (f_esp ex_bad_opcode)"
  "\<not> check_buffer 0xC0000000 (mem ex_bad_opcode) (f_esp ex_bad_opcode) 4"
  by (simp_all add: example_defs frame_defs probe_defs)

lemma ex_exec_bad_cmdline_frame:
  "frame_ok 0xC0000000 ex_exec_bad_cmdline SYS_EXEC"
  "read_arg 0xC0000000 4 ex_exec_bad_cmdline = Return 0xC0000000 ex_exec_bad_cmdline"
  "get_user 0xC0000000 (mem ex_exec_bad_cmdline) 0xC0000000 = - 1"
  by (simp_all add: example_defs frame_defs probe_defs SYS_EXEC_def)

lemma ex_write_bad_arg1_frame:
  "frame_ok 0xC0000000 ex_write_bad_arg1 SYS_WRITE"
  "read_arg 0xC0000000 4 ex_write_bad_arg1 = Return 1 ex_write_bad_arg1"
  "arg_faults 0xC0000000 ex_write_bad_arg1 8"
  by (simp_all add: example_defs frame_defs probe_defs SYS_WRITE_def)

lemma ex_write_bad_arg2_frame:
  "frame_ok 0xC0000000 ex_write_bad_arg2 SYS_WRITE"
  "read_arg 0xC0000000 4 ex_write_bad_arg2 = Return 1 ex_write_bad_arg2"
  "read_arg 0xC0000000 8 ex_write_bad_arg2 = Return 0xBFFFFFF0 ex_write_bad_arg2"
  "arg_faults 0xC0000000 ex_write_bad_arg2 12"
  by (simp_all add: example_defs frame_defs probe_defs SYS_WRITE_def)

lemma ex_write_hi_frame:
  "frame_ok 0xC0000000 ex_write_hi SYS_WRITE"
  "read_arg 0xC0000000 4 ex_write_hi = Return 1 ex_write_hi"
  "read_arg 0xC0000000 8 ex_write_hi = Return 0xBFFFFFF0 ex_write_hi"
  "read_arg 0xC0000000 12 ex_write_hi = Return 2 ex_write_hi"
  by (simp_all add: example_defs frame_defs probe_defs SYS_WRITE_def)

lemma ex_write_hi_buffer:
  "get_user 0xC0000000 (mem ex_write_hi) 0xBFFFFFF0 \<noteq> - 1"
  "check_buffer 0xC0000000 (mem ex_write_hi) 0xBFFFFFF0 2"
  "load_bytes (mem ex_write_hi) 0xBFFFFFF0 (unat (2 :: 32 word)) = Some [0x68, 0x69]"
  by (simp_all add: example_defs frame_defs probe_defs)

lemma ex_write_straddle_frame:
  "frame_ok 0xC0000000 ex_write_straddle SYS_WRITE"
  "read_arg 0xC0000000 4 ex_write_straddle = Return 1 ex_write_straddle"
  "read_arg 0xC0000000 8 ex_write_straddle = Return 0xBFFFFFFF ex_write_straddle"
  "read_arg 0xC0000000 12 ex_write_straddle = Return 2 ex_write_straddle"
  by (simp_all add: example_defs frame_defs probe_defs SYS_WRITE_def)

lemma ex_write_straddle_buffer:
  "get_user 0xC0000000 (mem ex_write_straddle) 0xBFFFFFFF \<noteq> - 1"
  "get_user 0xC0000000 (mem ex_write_straddle) (0xBFFFFFFF + 1) = - 1"
  "\<not> check_buffer 0xC0000000 (mem ex_write_straddle) 0xBFFFFFFF 2"
  "load_bytes (mem ex_write_straddle) 0xBFFFFFFF (unat (2 :: 32 word)) = Some [0x68, 0x53]"
  by (simp_all add: example_defs frame_defs probe_defs)

lemma ex_write_fd2_frame:
  "frame_ok 0xC0000000 ex_write_fd2 SYS_WRITE"
  "read_arg 0xC0000000 4 ex_write_fd2 = Return 2 ex_write_fd2"
  "read_arg 0xC0000000 8 ex_write_fd2 = Return 0xBFFFFFF0 ex_write_fd2"
  "read_arg 0xC0000000 12 ex_write_fd2 = Return 2 ex_write_fd2"
  "get_user 0xC0000000 (mem ex_write_fd2) 0xBFFFFFF0 \<noteq> - 1"
  by (simp_all add: example_defs frame_defs probe_defs SYS_WRITE_def)

section \<open>The user-address test (C3)\<close>

text \<open>
  C3 says that the user-address test holds exactly for the addresses strictly below
  \<^verbatim>\<open>PHYS_BASE\<close>, and fails at the boundary itself. \<^verbatim>\<open>check_addr\<close> compares with
  \<^verbatim>\<open>>\<close>, so it holds for every address up to and including the boundary
  (\<open>check_addr_iff\<close>): at \<open>uaddr = PHYS_BASE\<close> it returns true, for any boundary.
\<close>

theorem check_addr_accepts_boundary: "check_addr PHYS_BASE PHYS_BASE = True"
  by (simp add: check_addr_def)

section \<open>The single-byte probe (C7)\<close>

text \<open>
  C7: \<^verbatim>\<open>get_user\<close> at an address at or above \<^verbatim>\<open>PHYS_BASE\<close> returns \<open>-1\<close> before any
  read; at an unmapped address the guarded read yields \<open>-1\<close>; at a mapped user address
  it returns the byte there, zero-extended, which read as an \<^verbatim>\<open>int\<close> lies in
  \<open>[0, 255]\<close> and so differs from \<open>-1\<close>. The probe is a function of the boundary, the
  memory and the address: it has a value on every input and changes no state.
\<close>

theorem get_user_probe:
  "(\<not> uaddr < PHYS_BASE \<longrightarrow> get_user PHYS_BASE m uaddr = - 1) \<and>
   (m uaddr = None \<longrightarrow> get_user PHYS_BASE m uaddr = - 1) \<and>
   (uaddr < PHYS_BASE \<and> m uaddr = Some b \<longrightarrow>
      get_user PHYS_BASE m uaddr = ucast b \<and>
      sint (get_user PHYS_BASE m uaddr) = uint b \<and>
      0 \<le> sint (get_user PHYS_BASE m uaddr) \<and> sint (get_user PHYS_BASE m uaddr) \<le> 255 \<and>
      get_user PHYS_BASE m uaddr \<noteq> - 1)"
proof (intro conjI impI)
  assume "\<not> uaddr < PHYS_BASE"
  then show "get_user PHYS_BASE m uaddr = - 1"
    by (simp add: get_user_def)
next
  assume "m uaddr = None"
  then show "get_user PHYS_BASE m uaddr = - 1"
    by (simp add: get_user_def movzbl_guarded_def)
next
  assume a: "uaddr < PHYS_BASE \<and> m uaddr = Some b"
  then have g: "get_user PHYS_BASE m uaddr = ucast b"
    by (simp add: get_user_mapped)
  have "uint b < 2 ^ 8"
    using uint_lt2p [of b] by simp
  then have le: "uint b \<le> 255"
    by simp
  show "get_user PHYS_BASE m uaddr = ucast b"
    by (rule g)
  show "sint (get_user PHYS_BASE m uaddr) = uint b"
    by (simp add: g sint_ucast_byte)
  show "0 \<le> sint (get_user PHYS_BASE m uaddr)"
    by (simp add: g sint_ucast_byte)
  show "sint (get_user PHYS_BASE m uaddr) \<le> 255"
    using le by (simp add: g sint_ucast_byte)
  show "get_user PHYS_BASE m uaddr \<noteq> - 1"
    by (simp add: g ucast_byte_not_minus1)
qed

theorem get_user_probe_witness:
  "get_user 0xC0000000 (bytes_at 0xBFFFFFFF [0xFF, 0x53]) 0xC0000000 = - 1 \<and>
   get_user 0xC0000000 (bytes_at 0xBFFFFFFF [0xFF, 0x53]) 0xBFFFFFFE = - 1 \<and>
   get_user 0xC0000000 (bytes_at 0xBFFFFFFF [0xFF, 0x53]) 0xBFFFFFFF = 255 \<and>
   sint (get_user 0xC0000000 (bytes_at 0xBFFFFFFF [0xFF, 0x53]) 0xBFFFFFFF) = 255"
  using
    get_user_probe [where uaddr = "0xC0000000" and PHYS_BASE = "0xC0000000"
      and m = "bytes_at 0xBFFFFFFF [0xFF, 0x53]" and b = 0]
    get_user_probe [where uaddr = "0xBFFFFFFE" and PHYS_BASE = "0xC0000000"
      and m = "bytes_at 0xBFFFFFFF [0xFF, 0x53]" and b = 0]
    get_user_probe [where uaddr = "0xBFFFFFFF" and PHYS_BASE = "0xC0000000"
      and m = "bytes_at 0xBFFFFFFF [0xFF, 0x53]" and b = "0xFF"]
  by simp

section \<open>The partial copy of \<^verbatim>\<open>memread_user\<close> (C10)\<close>

text \<open>
  C10: let the first \<open>k\<close> bytes from \<open>src\<close> be readable user bytes \<open>xs\<close>. If the byte at
  offset \<open>k < bytes\<close> is a kernel address or faults, \<^verbatim>\<open>memread_user\<close> returns \<open>-1\<close> and
  leaves \<open>dst\<close> with its first \<open>k\<close> bytes overwritten by \<open>xs\<close> and the rest as it was.
  If all \<open>bytes\<close> bytes are readable (\<open>k = bytes\<close>) it returns \<open>bytes\<close> and has put
  \<open>xs\<close> over the first \<open>bytes\<close> bytes of \<open>dst\<close>. The caller of a failed read,
  \<open>read_arg\<close>, does not return: the partial data is never used.
\<close>

theorem memread_user_partial:
  assumes "unat bytes \<le> length dst" "length xs = k" "k \<le> unat bytes"
    and "\<forall>j<k. src + of_nat j < PHYS_BASE \<and> m (src + of_nat j) = Some (xs ! j)"
  shows "(k < unat bytes \<and> (\<not> src + of_nat k < PHYS_BASE \<or> m (src + of_nat k) = None) \<longrightarrow>
            memread_user PHYS_BASE m src dst bytes = (- 1, xs @ drop k dst)) \<and>
         (k = unat bytes \<longrightarrow> memread_user PHYS_BASE m src dst bytes = (bytes, xs @ drop k dst)) \<and>
         (arg_faults PHYS_BASE s off \<longrightarrow> (\<exists>why s'. read_arg PHYS_BASE off s = Stop why s'))"
proof (intro conjI impI)
  assume "k < unat bytes \<and> (\<not> src + of_nat k < PHYS_BASE \<or> m (src + of_nat k) = None)"
  then show "memread_user PHYS_BASE m src dst bytes = (- 1, xs @ drop k dst)"
    using assms memread_user_loop_fault [of 0 k "unat bytes" dst xs src PHYS_BASE m]
    by (simp add: memread_user_def)
next
  assume "k = unat bytes"
  then show "memread_user PHYS_BASE m src dst bytes = (bytes, xs @ drop k dst)"
    using assms memread_user_loop_ok [of 0 "unat bytes" dst xs src PHYS_BASE m]
    by (simp add: memread_user_def)
next
  assume "arg_faults PHYS_BASE s off"
  then show "\<exists>why s'. read_arg PHYS_BASE off s = Stop why s'"
    by (rule read_arg_fault_stops)
qed

theorem memread_user_partial_witness:
  "memread_user 0xC0000000 (bytes_at 0xBFFFFFFE [1, 2]) 0xBFFFFFFE [0xAA, 0xBB, 0xCC, 0xDD] 4 =
     (- 1, [1, 2, 0xCC, 0xDD]) \<and>
   memread_user 0xC0000000 (bytes_at 0xBFFFFFF0 [1, 2, 3, 4]) 0xBFFFFFF0 [0xAA, 0xBB, 0xCC, 0xDD] 4 =
     (4, [1, 2, 3, 4]) \<and>
   (\<exists>why s'. read_arg 0xC0000000 4 ex_exit_bad_arg = Stop why s')"
proof -
  have a: "\<forall>j<2. (0xBFFFFFFE :: addr) + of_nat j < 0xC0000000 \<and>
             bytes_at 0xBFFFFFFE [1, 2] (0xBFFFFFFE + of_nat j) = Some ([1, 2] ! j)"
  proof (intro allI impI)
    fix j :: nat
    assume "j < 2"
    then have "j = 0 \<or> j = 1"
      by arith
    then show "(0xBFFFFFFE :: addr) + of_nat j < 0xC0000000 \<and>
        bytes_at 0xBFFFFFFE [1, 2] (0xBFFFFFFE + of_nat j) = Some ([1, 2] ! j)"
      by (elim disjE) simp_all
  qed
  have b: "\<forall>j<4. (0xBFFFFFF0 :: addr) + of_nat j < 0xC0000000 \<and>
             bytes_at 0xBFFFFFF0 [1, 2, 3, 4] (0xBFFFFFF0 + of_nat j) = Some ([1, 2, 3, 4] ! j)"
  proof (intro allI impI)
    fix j :: nat
    assume "j < 4"
    then have "j = 0 \<or> j = 1 \<or> j = 2 \<or> j = 3"
      by arith
    then show "(0xBFFFFFF0 :: addr) + of_nat j < 0xC0000000 \<and>
        bytes_at 0xBFFFFFF0 [1, 2, 3, 4] (0xBFFFFFF0 + of_nat j) = Some ([1, 2, 3, 4] ! j)"
      by (elim disjE) simp_all
  qed
  show ?thesis
    using
      memread_user_partial [where bytes = 4 and dst = "[0xAA, 0xBB, 0xCC, 0xDD]"
        and xs = "[1, 2]" and k = 2 and src = "0xBFFFFFFE" and PHYS_BASE = "0xC0000000"
        and m = "bytes_at 0xBFFFFFFE [1, 2]" and s = ex_exit_bad_arg and off = 4, OF _ _ _ a]
      memread_user_partial [where bytes = 4 and dst = "[0xAA, 0xBB, 0xCC, 0xDD]"
        and xs = "[1, 2, 3, 4]" and k = 4 and src = "0xBFFFFFF0" and PHYS_BASE = "0xC0000000"
        and m = "bytes_at 0xBFFFFFF0 [1, 2, 3, 4]" and s = ex_exit_bad_arg and off = 4, OF _ _ _ b]
      ex_exit_bad_arg_frame(2)
    by simp
qed

section \<open>Exit (C6)\<close>

text \<open>
  C6 as stated has \<^verbatim>\<open>exit_code\<close> written first, then \<^verbatim>\<open>exited\<close>, then the signal.
  \<^verbatim>\<open>sys_exit\<close> stores \<^verbatim>\<open>exited\<close> first: in the events of \<^verbatim>\<open>exit (5)\<close> the store
  of \<^verbatim>\<open>exitcode\<close> does not precede the store of \<^verbatim>\<open>exited\<close>; it follows it.
\<close>

theorem sys_exit_order_counterexample:
  "\<not> precedes (Store_exitcode 5) (Store_exited True) (new_events ex_exit5 (sys_exit 5 ex_exit5)) \<and>
   precedes (Store_exited True) (Store_exitcode 5) (new_events ex_exit5 (sys_exit 5 ex_exit5))"
  by (simp add: sys_exit_def thread_exit_def emit_def sema_up_def Let_def new_events_def
      ex_exit5_def ex_state_def)

text \<open>
  C6, amended: \<^verbatim>\<open>sys_exit (S)\<close>, run by a process that has a PCB, sets
  \<^verbatim>\<open>exited = true\<close>, then writes \<^verbatim>\<open>exitcode = S\<close>, then raises the semaphore once,
  in that order, then ends the thread and does not return. Afterwards the PCB has
  \<^verbatim>\<open>exited == true\<close> and \<^verbatim>\<open>exitcode == S\<close>, and both stores precede the raising of
  the signal.
\<close>

theorem sys_exit_transition:
  assumes "cur_pcb s = Some p"
  shows "sys_exit S s =
           Stop ThreadExit
             (s\<lparr>cur_pcb := Some (p\<lparr>exited := True, exitcode := S, sema_wait := Suc (sema_wait p)\<rparr>),
                events := events s @ [Printf_exit (cur_name s) S, Store_exited True,
                                      Store_exitcode S, Sema_up, Thread_exit]\<rparr>) \<and>
         new_events s (sys_exit S s) =
           [Printf_exit (cur_name s) S, Store_exited True, Store_exitcode S, Sema_up, Thread_exit] \<and>
         precedes (Store_exited True) (Store_exitcode S) (new_events s (sys_exit S s)) \<and>
         precedes (Store_exited True) Sema_up (new_events s (sys_exit S s)) \<and>
         precedes (Store_exitcode S) Sema_up (new_events s (sys_exit S s)) \<and>
         precedes Sema_up Thread_exit (new_events s (sys_exit S s))"
  using assms
  by (simp add: sys_exit_def thread_exit_def emit_def sema_up_def Let_def new_events_def)

theorem sys_exit_transition_witness:
  "sys_exit 5 ex_exit5 =
     Stop ThreadExit
       (ex_exit5\<lparr>cur_pcb := Some \<lparr>exited = True, exitcode = 5, sema_wait = 1\<rparr>,
                 events := [Printf_exit ''child'' 5, Store_exited True, Store_exitcode 5,
                            Sema_up, Thread_exit]\<rparr>)"
  using sys_exit_transition [of ex_exit5 ex_pcb 5]
  by (simp add: ex_exit5_def ex_state_def ex_pcb_def)

section \<open>Halt (C8)\<close>

text \<open>
  C8: on a frame that passes the dispatcher's checks and holds the opcode \<^verbatim>\<open>SYS_HALT\<close>,
  the handler calls \<^verbatim>\<open>shutdown_power_off\<close> and nothing else: the outcome is the
  machine powered off, the only event added is that call, and the PCB, the frame and
  memory are as before. The text of \<^verbatim>\<open>case SYS_EXIT\<close> that follows the call in the
  source is never reached, because the call does not return.
\<close>

theorem halt_only_powers_off:
  assumes "frame_ok PHYS_BASE s SYS_HALT"
  shows "syscall_handler C PHYS_BASE s =
           Stop PowerOff (s\<lparr>events := events s @ [Shutdown_power_off]\<rparr>) \<and>
         new_events s (syscall_handler C PHYS_BASE s) = [Shutdown_power_off]"
  using assms
  by (simp add: handler_dispatch case_SYS_HALT_eq emit_def new_events_def)

theorem halt_only_powers_off_witness:
  "syscall_handler ex_collaborators 0xC0000000 ex_halt =
     Stop PowerOff (ex_halt\<lparr>events := [Shutdown_power_off]\<rparr>)"
  using halt_only_powers_off [OF ex_halt_frame, of ex_collaborators]
  by (simp add: ex_halt_def ex_state_def)

section \<open>Unimplemented and unknown opcodes (C4)\<close>

text \<open>
  C4: on a frame that passes the dispatcher's checks and holds an opcode \<open>n\<close> other than
  \<^verbatim>\<open>SYS_HALT\<close>, \<^verbatim>\<open>SYS_EXIT\<close>, \<^verbatim>\<open>SYS_EXEC\<close>, \<^verbatim>\<open>SYS_WAIT\<close> and \<^verbatim>\<open>SYS_WRITE\<close>, whether
  one of the eight other opcodes of the enumeration or any other 32-bit value, the
  handler of a process with a PCB prints the unimplemented-syscall diagnostic for \<open>n\<close>
  and then runs \<^verbatim>\<open>sys_exit (-1)\<close>: \<^verbatim>\<open>exited\<close> and \<^verbatim>\<open>exitcode = -1\<close> are stored, the
  semaphore is raised, the thread ends.
\<close>

theorem unimplemented_syscall_exits:
  assumes "frame_ok PHYS_BASE s n" "cur_pcb s = Some p"
    and "n \<notin> {SYS_HALT, SYS_EXIT, SYS_EXEC, SYS_WAIT, SYS_WRITE}"
  shows "syscall_handler C PHYS_BASE s =
           Stop ThreadExit
             (s\<lparr>cur_pcb := Some (p\<lparr>exited := True, exitcode := - 1,
                                    sema_wait := Suc (sema_wait p)\<rparr>),
                events := events s @ [Printf_syscall_unimplemented n,
                                      Printf_exit (cur_name s) (- 1), Store_exited True,
                                      Store_exitcode (- 1), Sema_up, Thread_exit]\<rparr>)"
  using assms
  by (simp add: handler_dispatch unhandled_pcb exit_path_def emit_def)

theorem unimplemented_syscall_exits_witness:
  "syscall_handler ex_collaborators 0xC0000000 ex_create =
     Stop ThreadExit
       (ex_create\<lparr>cur_pcb := Some \<lparr>exited = True, exitcode = - 1, sema_wait = 1\<rparr>,
                  events := [Printf_syscall_unimplemented 4, Printf_exit ''child'' (- 1),
                             Store_exited True, Store_exitcode (- 1), Sema_up, Thread_exit]\<rparr>) \<and>
   syscall_handler ex_collaborators 0xC0000000 ex_opcode13 =
     Stop ThreadExit
       (ex_opcode13\<lparr>cur_pcb := Some \<lparr>exited = True, exitcode = - 1, sema_wait = 1\<rparr>,
                    events := [Printf_syscall_unimplemented 13, Printf_exit ''child'' (- 1),
                               Store_exited True, Store_exitcode (- 1), Sema_up, Thread_exit]\<rparr>)"
  using unimplemented_syscall_exits [OF ex_create_frame, of ex_pcb ex_collaborators]
    unimplemented_syscall_exits [OF ex_opcode13_frame, of ex_pcb ex_collaborators]
  by (simp add: ex_create_def ex_opcode13_def ex_state_def ex_pcb_def syscall_nr_defs)

section \<open>Write to the console (C9)\<close>

text \<open>
  C9: take a \<^verbatim>\<open>write\<close> frame whose three argument words can be read as \<open>fd\<close>,
  \<open>buffer\<close> and \<open>size'\<close>. If \<open>fd = 1\<close> and the buffer is a valid user buffer (its first
  byte can be probed, which the handler does even when \<open>size' = 0\<close>, and the whole
  range passes \<^verbatim>\<open>check_buffer\<close>), the handler returns to the caller with \<open>size'\<close> in
  \<^verbatim>\<open>f->eax\<close> and has handed the console exactly the \<open>size'\<close> bytes that memory holds at
  \<open>buffer\<close>, and nothing else. For any other \<open>fd\<close> no bytes reach the console: the
  events added are the end of the thread, after the diagnostic when the first byte of
  the buffer can be probed.
\<close>

theorem write_console_forwards:
  assumes "frame_ok PHYS_BASE s SYS_WRITE"
    and "read_arg PHYS_BASE 4 s = Return fd s"
    and "read_arg PHYS_BASE 8 s = Return buffer s"
    and "read_arg PHYS_BASE 12 s = Return size' s"
  shows "(fd = 1 \<and> get_user PHYS_BASE (mem s) buffer \<noteq> - 1 \<and>
          check_buffer PHYS_BASE (mem s) buffer size' \<longrightarrow>
            (\<exists>bs. load_bytes (mem s) buffer (unat size') = Some bs \<and> length bs = unat size' \<and>
                  (\<forall>j<unat size'. mem s (buffer + of_nat j) = Some (bs ! j)) \<and>
                  syscall_handler C PHYS_BASE s =
                    Return () (s\<lparr>f_eax := size', events := events s @ [Putbuf bs]\<rparr>))) \<and>
         (fd \<noteq> 1 \<longrightarrow>
            new_events s (syscall_handler C PHYS_BASE s) =
              (if get_user PHYS_BASE (mem s) buffer = - 1 then [Thread_exit]
               else [Printf_sys_write_unimplemented, Thread_exit]))"
proof (intro conjI impI)
  assume a: "fd = 1 \<and> get_user PHYS_BASE (mem s) buffer \<noteq> - 1 \<and>
             check_buffer PHYS_BASE (mem s) buffer size'"
  then obtain bs where bs: "load_bytes (mem s) buffer (unat size') = Some bs"
    and len: "length bs = unat size'"
    using check_buffer_load by blast
  have "syscall_handler C PHYS_BASE s = case_SYS_WRITE PHYS_BASE s"
    using assms(1) by (rule handler_write)
  also have "\<dots> = Return () (s\<lparr>f_eax := size', events := events s @ [Putbuf bs]\<rparr>)"
    using assms(2-4) a bs by (intro write_console) simp_all
  finally have "syscall_handler C PHYS_BASE s =
      Return () (s\<lparr>f_eax := size', events := events s @ [Putbuf bs]\<rparr>)" .
  moreover have "\<forall>j<unat size'. mem s (buffer + of_nat j) = Some (bs ! j)"
    using load_bytes_nth [OF bs] by simp
  ultimately show "\<exists>bs. load_bytes (mem s) buffer (unat size') = Some bs \<and>
      length bs = unat size' \<and>
      (\<forall>j<unat size'. mem s (buffer + of_nat j) = Some (bs ! j)) \<and>
      syscall_handler C PHYS_BASE s =
        Return () (s\<lparr>f_eax := size', events := events s @ [Putbuf bs]\<rparr>)"
    using bs len by blast
next
  assume fd: "fd \<noteq> 1"
  have h: "syscall_handler C PHYS_BASE s = case_SYS_WRITE PHYS_BASE s"
    using assms(1) by (rule handler_write)
  show "new_events s (syscall_handler C PHYS_BASE s) =
      (if get_user PHYS_BASE (mem s) buffer = - 1 then [Thread_exit]
       else [Printf_sys_write_unimplemented, Thread_exit])"
  proof (cases "get_user PHYS_BASE (mem s) buffer = - 1")
    case True
    then show ?thesis
      using write_bad_buffer [OF assms(2-4)] by (simp add: h new_events_def)
  next
    case False
    then show ?thesis
      using write_other_fd [OF assms(2-4) _ fd] by (simp add: h new_events_def)
  qed
qed

theorem write_console_forwards_witness:
  "syscall_handler ex_collaborators 0xC0000000 ex_write_hi =
     Return () (ex_write_hi\<lparr>f_eax := 2, events := [Putbuf [0x68, 0x69]]\<rparr>) \<and>
   new_events ex_write_fd2 (syscall_handler ex_collaborators 0xC0000000 ex_write_fd2) =
     [Printf_sys_write_unimplemented, Thread_exit]"
proof -
  have e: "events ex_write_hi = []"
    by (simp add: ex_write_hi_def ex_state_def)
  show ?thesis
    using write_console_forwards [OF ex_write_hi_frame, of ex_collaborators]
      write_console_forwards [OF ex_write_fd2_frame(1-4), of ex_collaborators]
      ex_write_hi_buffer ex_write_fd2_frame(5)
    by (auto simp: e)
qed

section \<open>Invalid memory access (C1)\<close>

text \<open>
  C1 as stated has every failed validation, the one of the frame's stack pointer
  included, end in \<^verbatim>\<open>sys_exit (-1)\<close>. A stack pointer above \<^verbatim>\<open>PHYS_BASE\<close> is caught by
  the handler's first guard, which calls \<^verbatim>\<open>thread_exit\<close> itself: the thread ends with
  the PCB untouched (\<^verbatim>\<open>exited\<close> still false, no exit code stored) and without the
  semaphore being raised.
\<close>

theorem bad_stack_pointer_counterexample:
  "\<not> check_addr 0xC0000000 (f_esp ex_bad_esp) \<and>
   syscall_handler ex_collaborators 0xC0000000 ex_bad_esp =
     Stop ThreadExit (ex_bad_esp\<lparr>events := [Thread_exit]\<rparr>) \<and>
   cur_pcb (state_of (syscall_handler ex_collaborators 0xC0000000 ex_bad_esp)) =
     Some \<lparr>exited = False, exitcode = 0, sema_wait = 0\<rparr> \<and>
   Sema_up \<notin> set (new_events ex_bad_esp (syscall_handler ex_collaborators 0xC0000000 ex_bad_esp))"
proof -
  have c: "\<not> check_addr 0xC0000000 (f_esp ex_bad_esp)"
    by (simp add: ex_bad_esp_def ex_state_def check_addr_def)
  show ?thesis
    using c handler_bad_esp [OF c, of ex_collaborators]
    by (simp add: emit_def new_events_def ex_bad_esp_def ex_state_def ex_pcb_def)
qed

text \<open>
  C1, amended: in a process that has a PCB, a syscall invocation in which the opcode
  word, an argument word of \<^verbatim>\<open>exit\<close>, \<^verbatim>\<open>exec\<close>, \<^verbatim>\<open>wait\<close> or \<^verbatim>\<open>write\<close>, or the byte the
  \<^verbatim>\<open>exec\<close> command-line pointer points to fails validation ends in \<^verbatim>\<open>sys_exit (-1)\<close>:
  \<^verbatim>\<open>exited\<close> and \<^verbatim>\<open>exitcode = -1\<close> are stored and the semaphore is raised before the
  thread ends, and the handler does not return. A stack pointer above \<^verbatim>\<open>PHYS_BASE\<close>
  ends the thread at once through \<^verbatim>\<open>thread_exit\<close>, with no exit code stored and no
  signal raised. (The buffer of \<^verbatim>\<open>write\<close> is not part of this statement.)
\<close>

theorem invalid_access_exits:
  assumes "cur_pcb s = Some p"
  shows "(\<not> check_addr PHYS_BASE (f_esp s) \<longrightarrow>
            syscall_handler C PHYS_BASE s = Stop ThreadExit (s\<lparr>events := events s @ [Thread_exit]\<rparr>)) \<and>
         (check_addr PHYS_BASE (f_esp s) \<and> \<not> check_buffer PHYS_BASE (mem s) (f_esp s) 4 \<longrightarrow>
            syscall_handler C PHYS_BASE s = Stop ThreadExit (exit_path (- 1) p s)) \<and>
         (frame_ok PHYS_BASE s n \<and> n \<in> {SYS_EXIT, SYS_EXEC, SYS_WAIT, SYS_WRITE} \<and>
          arg_faults PHYS_BASE s 4 \<longrightarrow>
            syscall_handler C PHYS_BASE s = Stop ThreadExit (exit_path (- 1) p s)) \<and>
         (frame_ok PHYS_BASE s SYS_WRITE \<and> read_arg PHYS_BASE 4 s = Return fd s \<and>
          arg_faults PHYS_BASE s 8 \<longrightarrow>
            syscall_handler C PHYS_BASE s = Stop ThreadExit (exit_path (- 1) p s)) \<and>
         (frame_ok PHYS_BASE s SYS_WRITE \<and> read_arg PHYS_BASE 4 s = Return fd s \<and>
          read_arg PHYS_BASE 8 s = Return buffer s \<and> arg_faults PHYS_BASE s 12 \<longrightarrow>
            syscall_handler C PHYS_BASE s = Stop ThreadExit (exit_path (- 1) p s)) \<and>
         (frame_ok PHYS_BASE s SYS_EXEC \<and> read_arg PHYS_BASE 4 s = Return cmdline s \<and>
          get_user PHYS_BASE (mem s) cmdline = - 1 \<longrightarrow>
            syscall_handler C PHYS_BASE s = Stop ThreadExit (exit_path (- 1) p s)) \<and>
         cur_pcb (exit_path (- 1) p s) =
           Some (p\<lparr>exited := True, exitcode := - 1, sema_wait := Suc (sema_wait p)\<rparr>) \<and>
         events (exit_path (- 1) p s) =
           events s @ [Printf_exit (cur_name s) (- 1), Store_exited True, Store_exitcode (- 1),
                       Sema_up, Thread_exit]"
proof (intro conjI impI)
  assume "\<not> check_addr PHYS_BASE (f_esp s)"
  then show "syscall_handler C PHYS_BASE s = Stop ThreadExit (s\<lparr>events := events s @ [Thread_exit]\<rparr>)"
    by (simp add: handler_bad_esp emit_def)
next
  assume "check_addr PHYS_BASE (f_esp s) \<and> \<not> check_buffer PHYS_BASE (mem s) (f_esp s) 4"
  then show "syscall_handler C PHYS_BASE s = Stop ThreadExit (exit_path (- 1) p s)"
    using assms by (simp add: handler_bad_opcode)
next
  assume a: "frame_ok PHYS_BASE s n \<and> n \<in> {SYS_EXIT, SYS_EXEC, SYS_WAIT, SYS_WRITE} \<and>
             arg_faults PHYS_BASE s 4"
  then have f: "arg_faults PHYS_BASE s 4" and fr: "frame_ok PHYS_BASE s n"
    and n: "n = SYS_EXIT \<or> n = SYS_EXEC \<or> n = SYS_WAIT \<or> n = SYS_WRITE"
    by auto
  from n show "syscall_handler C PHYS_BASE s = Stop ThreadExit (exit_path (- 1) p s)"
    using first_arg_fault [OF f assms] handler_dispatch [OF fr]
    by (elim disjE) (simp_all add: syscall_nr_defs)
next
  assume a: "frame_ok PHYS_BASE s SYS_WRITE \<and> read_arg PHYS_BASE 4 s = Return fd s \<and>
             arg_faults PHYS_BASE s 8"
  then have "syscall_handler C PHYS_BASE s = case_SYS_WRITE PHYS_BASE s"
    by (simp add: handler_write)
  with a show "syscall_handler C PHYS_BASE s = Stop ThreadExit (exit_path (- 1) p s)"
    using assms by (simp add: write_second_arg_fault)
next
  assume a: "frame_ok PHYS_BASE s SYS_WRITE \<and> read_arg PHYS_BASE 4 s = Return fd s \<and>
             read_arg PHYS_BASE 8 s = Return buffer s \<and> arg_faults PHYS_BASE s 12"
  then have "syscall_handler C PHYS_BASE s = case_SYS_WRITE PHYS_BASE s"
    by (simp add: handler_write)
  with a show "syscall_handler C PHYS_BASE s = Stop ThreadExit (exit_path (- 1) p s)"
    using assms by (simp add: write_third_arg_fault)
next
  assume a: "frame_ok PHYS_BASE s SYS_EXEC \<and> read_arg PHYS_BASE 4 s = Return cmdline s \<and>
             get_user PHYS_BASE (mem s) cmdline = - 1"
  then have "syscall_handler C PHYS_BASE s = case_SYS_EXEC C PHYS_BASE s"
    by (simp add: handler_exec)
  with a show "syscall_handler C PHYS_BASE s = Stop ThreadExit (exit_path (- 1) p s)"
    using assms by (simp add: case_SYS_EXEC_bad_cmdline)
next
  show "cur_pcb (exit_path (- 1) p s) =
      Some (p\<lparr>exited := True, exitcode := - 1, sema_wait := Suc (sema_wait p)\<rparr>)"
    by (simp add: exit_path_def)
next
  show "events (exit_path (- 1) p s) =
      events s @ [Printf_exit (cur_name s) (- 1), Store_exited True, Store_exitcode (- 1),
                  Sema_up, Thread_exit]"
    by (simp add: exit_path_def)
qed

lemma ex_pcbs:
  "cur_pcb ex_bad_esp = Some ex_pcb" "cur_pcb ex_bad_opcode = Some ex_pcb"
  "cur_pcb ex_exit_bad_arg = Some ex_pcb" "cur_pcb ex_write_bad_arg1 = Some ex_pcb"
  "cur_pcb ex_write_bad_arg2 = Some ex_pcb" "cur_pcb ex_exec_bad_cmdline = Some ex_pcb"
  by (simp_all add: example_defs)

theorem invalid_access_exits_witness:
  "syscall_handler ex_collaborators 0xC0000000 ex_bad_esp =
     Stop ThreadExit (ex_bad_esp\<lparr>events := events ex_bad_esp @ [Thread_exit]\<rparr>) \<and>
   syscall_handler ex_collaborators 0xC0000000 ex_bad_opcode =
     Stop ThreadExit (exit_path (- 1) ex_pcb ex_bad_opcode) \<and>
   syscall_handler ex_collaborators 0xC0000000 ex_exit_bad_arg =
     Stop ThreadExit (exit_path (- 1) ex_pcb ex_exit_bad_arg) \<and>
   syscall_handler ex_collaborators 0xC0000000 ex_write_bad_arg1 =
     Stop ThreadExit (exit_path (- 1) ex_pcb ex_write_bad_arg1) \<and>
   syscall_handler ex_collaborators 0xC0000000 ex_write_bad_arg2 =
     Stop ThreadExit (exit_path (- 1) ex_pcb ex_write_bad_arg2) \<and>
   syscall_handler ex_collaborators 0xC0000000 ex_exec_bad_cmdline =
     Stop ThreadExit (exit_path (- 1) ex_pcb ex_exec_bad_cmdline) \<and>
   cur_pcb (exit_path (- 1) ex_pcb ex_exit_bad_arg) =
     Some \<lparr>exited = True, exitcode = - 1, sema_wait = 1\<rparr> \<and>
   events (exit_path (- 1) ex_pcb ex_exit_bad_arg) =
     [Printf_exit ''child'' (- 1), Store_exited True, Store_exitcode (- 1), Sema_up, Thread_exit]"
proof -
  have c: "\<not> check_addr 0xC0000000 (f_esp ex_bad_esp)"
    by (simp add: ex_bad_esp_def ex_state_def check_addr_def)
  have e: "events ex_exit_bad_arg = []" "cur_name ex_exit_bad_arg = ''child''"
    by (simp_all add: example_defs)
  note w = invalid_access_exits [where PHYS_BASE = "0xC0000000" and C = ex_collaborators]
  show ?thesis
    using c ex_bad_opcode_frame ex_exit_bad_arg_frame ex_write_bad_arg1_frame
      ex_write_bad_arg2_frame ex_exec_bad_cmdline_frame
      w [OF ex_pcbs(1)]
      w [OF ex_pcbs(2)]
      w [OF ex_pcbs(3), where n = SYS_EXIT]
      w [OF ex_pcbs(4), where fd = 1]
      w [OF ex_pcbs(5), where fd = 1 and buffer = "0xBFFFFFF0"]
      w [OF ex_pcbs(6), where cmdline = "0xC0000000"]
    by (simp add: e ex_pcb_def)
qed

section \<open>The buffer of write (C2)\<close>

text \<open>
  C2 says that \<^verbatim>\<open>write\<close> validates the whole range \<^verbatim>\<open>[buffer, buffer + size)\<close> and
  rejects a buffer whose later bytes are not user bytes. \<^verbatim>\<open>sys_write\<close> probes the first
  byte only. For \<^verbatim>\<open>write (1, 0xBFFFFFFF, 2)\<close> with the boundary at \<open>0xC0000000\<close> the
  range does not pass \<^verbatim>\<open>check_buffer\<close>, yet the handler returns \<open>2\<close> and the console
  has been handed both bytes, the second of them the kernel's byte at \<open>0xC0000000\<close>.
\<close>

theorem write_straddling_buffer_forwarded:
  "\<not> check_buffer 0xC0000000 (mem ex_write_straddle) 0xBFFFFFFF 2 \<and>
   syscall_handler ex_collaborators 0xC0000000 ex_write_straddle =
     Return () (ex_write_straddle\<lparr>f_eax := 2, events := [Putbuf [0x68, 0x53]]\<rparr>)"
proof -
  have e: "events ex_write_straddle = []"
    by (simp add: example_defs)
  have "syscall_handler ex_collaborators 0xC0000000 ex_write_straddle =
      case_SYS_WRITE 0xC0000000 ex_write_straddle"
    by (rule handler_write [OF ex_write_straddle_frame(1)])
  then show ?thesis
    using write_console [OF ex_write_straddle_frame(2-4) ex_write_straddle_buffer(1,4)]
      ex_write_straddle_buffer(3)
    by (simp add: e)
qed

section \<open>Write to another descriptor (C5)\<close>

text \<open>
  C5 says that \<^verbatim>\<open>write\<close> to a descriptor other than 1 forwards nothing, reports the
  unimplemented failure, and ends the process with exit code \<open>-1\<close> through
  \<^verbatim>\<open>sys_exit\<close>. For \<^verbatim>\<open>write (2, "hi", 2)\<close> the handler prints the diagnostic and then
  calls \<^verbatim>\<open>thread_exit\<close> itself: no byte is forwarded, but the PCB still has
  \<^verbatim>\<open>exited\<close> false, no exit code is stored and the semaphore is not raised.
\<close>

theorem write_other_fd_skips_exit_path:
  "syscall_handler ex_collaborators 0xC0000000 ex_write_fd2 =
     Stop ThreadExit (ex_write_fd2\<lparr>events := [Printf_sys_write_unimplemented, Thread_exit]\<rparr>) \<and>
   cur_pcb (state_of (syscall_handler ex_collaborators 0xC0000000 ex_write_fd2)) =
     Some \<lparr>exited = False, exitcode = 0, sema_wait = 0\<rparr>"
proof -
  have e: "events ex_write_fd2 = []" "cur_pcb ex_write_fd2 = Some ex_pcb"
    by (simp_all add: example_defs)
  have "syscall_handler ex_collaborators 0xC0000000 ex_write_fd2 =
      case_SYS_WRITE 0xC0000000 ex_write_fd2"
    by (rule handler_write [OF ex_write_fd2_frame(1)])
  then show ?thesis
    using write_other_fd [OF ex_write_fd2_frame(2-5)]
    by (simp add: e ex_pcb_def)
qed

end
